theory Spec2Isabelle
  imports Main
begin

section \<open>The LlamaIndex adapter of any-agent\<close>

text \<open>
  A shallow embedding of \<^verbatim>\<open>src/any_agent/frameworks/llama_index.py\<close>: the module-level
  import guard, and the class \<^verbatim>\<open>LlamaIndexAgent\<close> with \<^verbatim>\<open>__init__\<close>,
  \<^verbatim>\<open>_get_model\<close>, \<^verbatim>\<open>_load_agent\<close> and \<^verbatim>\<open>_run_async\<close>.

  The adapter's collaborators (the tool loader of the base class, the model class, the
  agent class, the agent's \<^verbatim>\<open>run\<close>) are code of other modules. They are parameters of the
  model: functions on an abstract world \<open>'w\<close> that either raise or return. The adapter
  object is a record, separate from the world, passed in and returned updated.
\<close>

subsection \<open>Python values\<close>

text \<open>
  Exceptions. The adapter raises \<^verbatim>\<open>ImportError\<close> and \<^verbatim>\<open>ValueError\<close> with a message;
  a name the failed import left unbound raises \<^verbatim>\<open>NameError\<close>; a keyword passed twice to
  a call raises \<^verbatim>\<open>TypeError\<close> (its argument here is the repeated keyword, the message's
  prefix naming the callee is left out). \<open>Raised e\<close> is any other exception of a
  collaborator. Collaborators raise values of the same type, so that an exception which
  propagates is the same value.
\<close>

datatype 'e exn =
    ImportError string
  | ValueError string
  | NameError string
  | TypeError string
  | Raised 'e

text \<open>A dict with string keys, in insertion order. It is falsy when empty.\<close>

type_synonym 'v dict = "(string \<times> 'v) list"

text \<open>
  A class or any other callable, with the truth value Python's \<^verbatim>\<open>bool()\<close> gives it
  (\<^verbatim>\<open>True\<close> for every ordinary class).
\<close>

datatype 'c callable = Callable (truthy: bool) (target: 'c)

text \<open>A call of a collaborator in a world: the exception or the value, and the new world.\<close>

type_synonym ('w, 'e, 'a) call = "'w \<Rightarrow> ('e exn + 'a) \<times> 'w"

subsection \<open>Data\<close>

text \<open>
  Modelled from the spec: \<^verbatim>\<open>AgentConfig\<close> is declared in \<^verbatim>\<open>any_agent.config\<close>, which is not
  among the sources. Its fields are the ones the adapter reads; the optional ones may be
  \<^verbatim>\<open>None\<close>.
\<close>

record ('v, 'ts, 'mt, 'at) agent_config =
  model_id :: string
  api_base :: "string option"
  api_key :: "string option"
  description :: "string option"
  name :: string
  instructions :: "string option"
  tools :: "'ts list"
  agent_type :: "'at callable option"
  agent_args :: "'v dict option"
  model_type :: "'mt callable option"
  model_args :: "'v dict option"

text \<open>The keyword arguments of the model class's call (lines 45 to 48).\<close>

record 'v model_kwargs =
  kw_model :: string
  kw_api_key :: "string option"
  kw_api_base :: "string option"
  kw_additional_kwargs :: "'v dict"

text \<open>
  The keyword arguments of the agent class's call (lines 62 to 67): the five written
  ones, and the ones unpacked from \<^verbatim>\<open>agent_args\<close>.
\<close>

record ('v, 'tl, 'llm) agent_kwargs =
  kw_name :: string
  kw_tools :: "'tl list"
  kw_description :: string
  kw_llm :: 'llm
  kw_system_prompt :: "string option"
  kw_unpacked :: "'v dict"

text \<open>
  The backend's result: \<^verbatim>\<open>result.response.blocks\<close> is a list of content blocks. A block
  may or may not have an attribute \<^verbatim>\<open>text\<close> (\<open>block_text\<close>, as \<open>text\<close> is a keyword
  here); \<open>None\<close> is a block without it.
\<close>

record content_block =
  block_type :: string
  block_text :: "string option"

record chat_message =
  role :: string
  blocks :: "content_block list"

record agent_output =
  response :: chat_message

text \<open>
  The adapter object. \<^verbatim>\<open>self._agent\<close> holds \<^verbatim>\<open>None\<close> or the object the agent class
  returned. Line 71 tests the truth value of that object, which is the object's own
  (\<open>agent_bool\<close> below).
\<close>

record ('v, 'ts, 'mt, 'at, 'tl, 'ag) adapter =
  self_config :: "('v, 'ts, 'mt, 'at) agent_config"
  self_tools :: "'tl list"
  self_agent :: "'ag option"

text \<open>
  The module's state after its import guard (lines 8 to 16), and the collaborators.
  A default that the guard did not bind is \<open>None\<close>. \<open>agent_bool\<close> is \<^verbatim>\<open>bool()\<close> of an
  agent object (\<^verbatim>\<open>True\<close> for an object that defines neither \<^verbatim>\<open>__bool__\<close> nor
  \<^verbatim>\<open>__len__\<close>), which line 71 calls. \<open>str_response\<close> is \<^verbatim>\<open>str()\<close> of the response
  object, which the f-string of line 77 calls.
\<close>

record ('w, 'e, 'v, 'ts, 'mt, 'at, 'tl, 'aux, 'llm, 'ag) env =
  llama_index_available :: bool
  DEFAULT_AGENT_TYPE :: "'at callable option"
  DEFAULT_MODEL_TYPE :: "'mt callable option"
  load_tools :: "'ts list \<Rightarrow> ('w, 'e, 'tl list \<times> 'aux) call"
  call_model_type :: "'mt callable \<Rightarrow> 'v model_kwargs \<Rightarrow> ('w, 'e, 'llm) call"
  call_agent_type :: "'at callable \<Rightarrow> ('v, 'tl, 'llm) agent_kwargs \<Rightarrow> ('w, 'e, 'ag) call"
  agent_bool :: "'ag \<Rightarrow> bool"
  agent_run :: "'ag \<Rightarrow> string \<Rightarrow> 'v dict \<Rightarrow> ('w, 'e, agent_output) call"
  str_response :: "chat_message \<Rightarrow> string"

subsection \<open>Python's \<^verbatim>\<open>or\<close>\<close>

text \<open>
  \<^verbatim>\<open>x or d\<close> is \<open>x\<close> when \<open>x\<close> is truthy and \<open>d\<close> otherwise. \<^verbatim>\<open>None\<close>, the empty string
  and the empty dict are falsy.
\<close>

definition str_or :: "string option \<Rightarrow> string \<Rightarrow> string" where
  "str_or x d = (case x of None \<Rightarrow> d | Some s \<Rightarrow> if s = [] then d else s)"

definition dict_or :: "'v dict option \<Rightarrow> 'v dict \<Rightarrow> 'v dict" where
  "dict_or x d = (case x of None \<Rightarrow> d | Some m \<Rightarrow> if m = [] then d else m)"

text \<open>
  \<^verbatim>\<open>x or DEFAULT\<close> for a class: the default's name is looked up only when \<open>x\<close> is falsy,
  and the lookup raises \<^verbatim>\<open>NameError\<close> when the import guard left the name unbound.
\<close>

definition lookup_global :: "string \<Rightarrow> 'c option \<Rightarrow> 'e exn + 'c" where
  "lookup_global nm g =
     (case g of
        None \<Rightarrow> Inl (NameError (''name '' @ [CHR 0x27] @ nm @ [CHR 0x27] @ '' is not defined''))
      | Some c \<Rightarrow> Inr c)"

definition type_or :: "'c callable option \<Rightarrow> string \<Rightarrow> 'c callable option \<Rightarrow> 'e exn + 'c callable" where
  "type_or x nm g =
     (case x of
        None \<Rightarrow> lookup_global nm g
      | Some c \<Rightarrow> if truthy c then Inr c else lookup_global nm g)"

subsection \<open>\<^verbatim>\<open>__init__\<close>\<close>


subsection \<open>\<^verbatim>\<open>_get_model\<close>\<close>

definition get_model_kwargs :: "('v, 'ts, 'mt, 'at) agent_config \<Rightarrow> 'v model_kwargs" where
  "get_model_kwargs agent_config =
     \<lparr>kw_model = model_id agent_config,
      kw_api_key = api_key agent_config,
      kw_api_base = api_base agent_config,
      kw_additional_kwargs = dict_or (model_args agent_config) []\<rparr>"

definition get_model ::
  "('w, 'e, 'v, 'ts, 'mt, 'at, 'tl, 'aux, 'llm, 'ag) env \<Rightarrow> ('v, 'ts, 'mt, 'at) agent_config \<Rightarrow>
   ('w, 'e, 'llm) call" where
  "get_model env agent_config w =
     (case type_or (model_type agent_config) ''DEFAULT_MODEL_TYPE'' (DEFAULT_MODEL_TYPE env) of
        Inl e \<Rightarrow> (Inl e, w)
      | Inr mt \<Rightarrow> call_model_type env mt (get_model_kwargs agent_config) w)"

subsection \<open>\<^verbatim>\<open>_load_agent\<close>\<close>

definition install_msg :: string where
  "install_msg =
     ''You need to `pip install '' @ [CHR 0x27] @ ''any-agent[llama_index]'' @ [CHR 0x27] @
     ''` to use this agent''"

text \<open>The keywords written out in the agent class's call.\<close>

definition written_keywords :: "string list" where
  "written_keywords = [''name'', ''tools'', ''description'', ''llm'', ''system_prompt'']"

text \<open>
  Unpacking \<^verbatim>\<open>**d\<close> after written keywords raises \<^verbatim>\<open>TypeError\<close> at the first key of \<open>d\<close>
  that is one of them.
\<close>

definition repeated_keyword :: "'v dict \<Rightarrow> string option" where
  "repeated_keyword d = find (\<lambda>k. k \<in> set written_keywords) (map fst d)"

definition get_agent_kwargs ::
  "('v, 'ts, 'mt, 'at) agent_config \<Rightarrow> 'tl list \<Rightarrow> 'llm \<Rightarrow> ('v, 'tl, 'llm) agent_kwargs" where
  "get_agent_kwargs config imported_tools llm =
     \<lparr>kw_name = name config,
      kw_tools = imported_tools,
      kw_description = str_or (description config) ''The main agent'',
      kw_llm = llm,
      kw_system_prompt = instructions config,
      kw_unpacked = dict_or (agent_args config) []\<rparr>"

text \<open>
  The statements in the source's order: the availability check, the tool loader, the
  choice of the agent class, the assignment of \<^verbatim>\<open>_tools\<close>, then the call's arguments
  (the model is built while they are evaluated), the unpacking of \<^verbatim>\<open>agent_args\<close>, the
  call itself and the assignment of \<^verbatim>\<open>_agent\<close>. An exception leaves the object as the
  statements before it made it.
\<close>

definition load_agent ::
  "('w, 'e, 'v, 'ts, 'mt, 'at, 'tl, 'aux, 'llm, 'ag) env \<Rightarrow> ('v, 'ts, 'mt, 'at, 'tl, 'ag) adapter \<Rightarrow>
   'w \<Rightarrow> (('e exn + unit) \<times> ('v, 'ts, 'mt, 'at, 'tl, 'ag) adapter) \<times> 'w" where
  "load_agent env self w =
     (if \<not> llama_index_available env then ((Inl (ImportError install_msg), self), w)
      else
        case load_tools env (tools (self_config self)) w of
          (Inl e, w1) \<Rightarrow> ((Inl e, self), w1)
        | (Inr (imported_tools, _), w1) \<Rightarrow>
            (case type_or (agent_type (self_config self)) ''DEFAULT_AGENT_TYPE''
                    (DEFAULT_AGENT_TYPE env) of
               Inl e \<Rightarrow> ((Inl e, self), w1)
             | Inr at \<Rightarrow>
                 let self1 = self\<lparr>self_tools := imported_tools\<rparr> in
                 (case get_model env (self_config self1) w1 of
                    (Inl e, w2) \<Rightarrow> ((Inl e, self1), w2)
                  | (Inr llm, w2) \<Rightarrow>
                      (case repeated_keyword (dict_or (agent_args (self_config self1)) []) of
                         Some k \<Rightarrow> ((Inl (TypeError k), self1), w2)
                       | None \<Rightarrow>
                           (case call_agent_type env at
                                   (get_agent_kwargs (self_config self1) imported_tools llm) w2 of
                              (Inl e, w3) \<Rightarrow> ((Inl e, self1), w3)
                            | (Inr a, w3) \<Rightarrow> ((Inr (), self1\<lparr>self_agent := Some a\<rparr>), w3))))))"

subsection \<open>\<^verbatim>\<open>_run_async\<close>\<close>

definition not_loaded_msg :: string where
  "not_loaded_msg = ''Agent not loaded. Call load_agent() first.''"

definition invalid_response_msg ::
  "('w, 'e, 'v, 'ts, 'mt, 'at, 'tl, 'aux, 'llm, 'ag) env \<Rightarrow> agent_output \<Rightarrow> string" where
  "invalid_response_msg env result =
     ''Agent did not return a valid response: '' @ str_response env (response result)"

text \<open>
  \<^verbatim>\<open>not self._agent\<close> holds when the field is \<^verbatim>\<open>None\<close> and when it holds an object whose
  truth value is \<^verbatim>\<open>False\<close>; in both cases line 73 raises before the backend is called.
\<close>

definition run_async ::
  "('w, 'e, 'v, 'ts, 'mt, 'at, 'tl, 'aux, 'llm, 'ag) env \<Rightarrow> ('v, 'ts, 'mt, 'at, 'tl, 'ag) adapter \<Rightarrow>
   string \<Rightarrow> 'v dict \<Rightarrow>
   'w \<Rightarrow> (('e exn + string) \<times> ('v, 'ts, 'mt, 'at, 'tl, 'ag) adapter) \<times> 'w" where
  "run_async env self prompt kwargs w =
     (case self_agent self of
        None \<Rightarrow> ((Inl (ValueError not_loaded_msg), self), w)
      | Some a \<Rightarrow>
          if \<not> agent_bool env a then ((Inl (ValueError not_loaded_msg), self), w)
          else
            (case agent_run env a prompt kwargs w of
               (Inl e, w1) \<Rightarrow> ((Inl e, self), w1)
             | (Inr result, w1) \<Rightarrow>
                 (case blocks (response result) of
                    [] \<Rightarrow> ((Inl (ValueError (invalid_response_msg env result)), self), w1)
                  | b # _ \<Rightarrow>
                      (case block_text b of
                         None \<Rightarrow> ((Inl (ValueError (invalid_response_msg env result)), self), w1)
                       | Some t \<Rightarrow> ((Inr t, self), w1)))))"

section \<open>A concrete backend\<close>

text \<open>
  An instance of the collaborators on which the definitions evaluate. The world is the
  log of the collaborators' calls. The tool loader rejects the tool \<open>''bad''\<close> and
  resolves every other list to itself; a model or an agent is the class and the keyword
  arguments it was built from, and is truthy; the agent answers the empty prompt with no block, the
  prompt \<open>''image''\<close> with an image block, and any other prompt with one text block
  holding the prompt.
\<close>

type_synonym echo_llm = "string callable \<times> string model_kwargs"

type_synonym echo_agent = "string callable \<times> (string, string, echo_llm) agent_kwargs"

type_synonym echo_adapter = "(string, string, string, string, string, echo_agent) adapter"

definition echo_blocks :: "string \<Rightarrow> content_block list" where
  "echo_blocks prompt =
     (if prompt = [] then []
      else if prompt = ''image'' then [\<lparr>block_type = ''image'', block_text = None\<rparr>]
      else [\<lparr>block_type = ''text'', block_text = Some prompt\<rparr>])"

definition echo_output :: "string \<Rightarrow> agent_output" where
  "echo_output prompt = \<lparr>response = \<lparr>role = ''assistant'', blocks = echo_blocks prompt\<rparr>\<rparr>"

definition echo_env ::
  "(string list, string, string, string, string, string, string, unit, echo_llm, echo_agent) env" where
  "echo_env =
     \<lparr>llama_index_available = True,
      DEFAULT_AGENT_TYPE = Some (Callable True ''FunctionAgent''),
      DEFAULT_MODEL_TYPE = Some (Callable True ''LiteLLM''),
      load_tools = (\<lambda>ts w.
        if ''bad'' \<in> set ts then (Inl (Raised ''unknown tool''), w @ [''load_tools''])
        else (Inr (ts, ()), w @ [''load_tools''])),
      call_model_type = (\<lambda>c kw w. (Inr (c, kw), w @ [''model''])),
      call_agent_type = (\<lambda>c kw w. (Inr (c, kw), w @ [''agent''])),
      agent_bool = (\<lambda>a. True),
      agent_run = (\<lambda>a prompt kwargs w. (Inr (echo_output prompt), w @ [''run''])),
      str_response = (\<lambda>m. role m @ '': '' @ concat (map (\<lambda>b. case block_text b of None \<Rightarrow> [] | Some t \<Rightarrow> t) (blocks m)))\<rparr>"

definition echo_config :: "(string, string, string, string) agent_config" where
  "echo_config =
     \<lparr>model_id = ''gpt-4o'', api_base = None, api_key = Some ''k'', description = None,
      name = ''any_agent'', instructions = Some ''Be brief'', tools = [''search''],
      agent_type = None, agent_args = None, model_type = None, model_args = None\<rparr>"

definition echo_unloaded :: echo_adapter where
  "echo_unloaded = \<lparr>self_config = echo_config, self_tools = [], self_agent = None\<rparr>"

definition echo_llm :: echo_llm where
  "echo_llm =
     (Callable True ''LiteLLM'',
      \<lparr>kw_model = ''gpt-4o'', kw_api_key = Some ''k'', kw_api_base = None,
       kw_additional_kwargs = []\<rparr>)"

definition echo_agent :: echo_agent where
  "echo_agent =
     (Callable True ''FunctionAgent'',
      \<lparr>kw_name = ''any_agent'', kw_tools = [''search''], kw_description = ''The main agent'',
       kw_llm = echo_llm, kw_system_prompt = Some ''Be brief'', kw_unpacked = []\<rparr>)"

definition echo_loaded :: echo_adapter where
  "echo_loaded = \<lparr>self_config = echo_config, self_tools = [''search''], self_agent = Some echo_agent\<rparr>"

section \<open>The adapter's life cycle and the spec's reading of defaults\<close>


text \<open>
  The spec's words "treated exactly as if it were unset", as a function on
  configurations: every defaulted field that holds a falsy value (the empty string, the
  empty dict, a falsy callable) becomes \<^verbatim>\<open>None\<close>. It is not part of the source; the
  source's behaviour is compared with it.
\<close>

definition spec_unset_falsy :: "('v, 'ts, 'mt, 'at) agent_config \<Rightarrow> ('v, 'ts, 'mt, 'at) agent_config" where
  "spec_unset_falsy c =
     c\<lparr>description := (case description c of None \<Rightarrow> None | Some d \<Rightarrow> if d = [] then None else Some d),
       agent_type := (case agent_type c of None \<Rightarrow> None | Some t \<Rightarrow> if truthy t then Some t else None),
       agent_args := (case agent_args c of None \<Rightarrow> None | Some m \<Rightarrow> if m = [] then None else Some m),
       model_type := (case model_type c of None \<Rightarrow> None | Some t \<Rightarrow> if truthy t then Some t else None),
       model_args := (case model_args c of None \<Rightarrow> None | Some m \<Rightarrow> if m = [] then None else Some m)\<rparr>"

text \<open>
  The spec's words "the description (defaulting to "The main agent" when unset)", read
  by absence: the configured description whenever there is one. It is not part of the
  source; the source's behaviour is compared with it.
\<close>

definition spec_description :: "('v, 'ts, 'mt, 'at) agent_config \<Rightarrow> string" where
  "spec_description c = (case description c of None \<Rightarrow> ''The main agent'' | Some d \<Rightarrow> d)"

text \<open>Configurations and objects of the concrete backend that the examples below use.\<close>

definition echo_other_config :: "(string, string, string, string) agent_config" where
  "echo_other_config =
     echo_config\<lparr>description := Some ''Other'', name := ''other'', tools := [''bad''],
       agent_args := Some [(''verbose'', ''1'')]\<rparr>"

definition echo_blank :: echo_adapter where
  "echo_blank = echo_unloaded\<lparr>self_config := echo_config\<lparr>description := Some []\<rparr>\<rparr>"

definition echo_falsy_config :: "(string, string, string, string) agent_config" where
  "echo_falsy_config =
     echo_config\<lparr>description := Some [],
       agent_type := Some (Callable False ''Falsy''), agent_args := Some [],
       model_type := Some (Callable False ''Falsy''), model_args := Some []\<rparr>"



section \<open>Properties\<close>

subsection \<open>Auxiliary facts\<close>

lemma dict_or_empty: "dict_or x [] = (case x of None \<Rightarrow> [] | Some m \<Rightarrow> m)"
  by (simp add: dict_or_def split: option.split)

lemma type_or_Inr:
  "type_or x nm g = Inr at \<longleftrightarrow>
     (case x of
        None \<Rightarrow> g = Some at
      | Some c \<Rightarrow> if truthy c then at = c else g = Some at)"
  by (auto simp: type_or_def lookup_global_def split: option.splits)

lemma load_agent_Inr:
  fixes env :: "('w, 'e, 'v, 'ts, 'mt, 'at, 'tl, 'aux, 'llm, 'ag) env"
  assumes "load_agent env self w = ((Inr u, self'), w')"
  shows "\<exists>imported_tools aux w1 at llm w2 a.
           llama_index_available env \<and>
           load_tools env (tools (self_config self)) w = (Inr (imported_tools, aux), w1) \<and>
           (case agent_type (self_config self) of
              None \<Rightarrow> DEFAULT_AGENT_TYPE env = Some at
            | Some c \<Rightarrow> if truthy c then at = c else DEFAULT_AGENT_TYPE env = Some at) \<and>
           get_model env (self_config self) w1 = (Inr llm, w2) \<and>
           repeated_keyword (dict_or (agent_args (self_config self)) []) = None \<and>
           call_agent_type env at (get_agent_kwargs (self_config self) imported_tools llm) w2 = (Inr a, w') \<and>
           self' = self\<lparr>self_tools := imported_tools, self_agent := Some a\<rparr>"
proof -
  from assms obtain imported_tools aux w1 at llm w2 a where
    h: "llama_index_available env"
      "load_tools env (tools (self_config self)) w = (Inr (imported_tools, aux), w1)"
      "type_or (agent_type (self_config self)) ''DEFAULT_AGENT_TYPE'' (DEFAULT_AGENT_TYPE env) =
         (Inr at :: 'e exn + 'at callable)"
      "get_model env (self_config self) w1 = (Inr llm, w2)"
      "repeated_keyword (dict_or (agent_args (self_config self)) []) = None"
      "call_agent_type env at (get_agent_kwargs (self_config self) imported_tools llm) w2 = (Inr a, w')"
      "self' = self\<lparr>self_tools := imported_tools, self_agent := Some a\<rparr>"
    by (auto simp: load_agent_def Let_def split: if_splits prod.splits sum.splits option.splits)
  from h(3) have
    "case agent_type (self_config self) of
       None \<Rightarrow> DEFAULT_AGENT_TYPE env = Some at
     | Some c \<Rightarrow> if truthy c then at = c else DEFAULT_AGENT_TYPE env = Some at"
    by (simp only: type_or_Inr)
  with h show ?thesis
    by blast
qed





lemma echo_load:
  "load_agent echo_env echo_unloaded [] = ((Inr (), echo_loaded), [''load_tools'', ''model'', ''agent''])"
  by (simp add: load_agent_def get_model_def get_model_kwargs_def get_agent_kwargs_def
      type_or_def lookup_global_def dict_or_def str_or_def repeated_keyword_def
      echo_env_def echo_unloaded_def echo_loaded_def echo_config_def echo_agent_def echo_llm_def)



lemma run_async_falsy_agent:
  "self_agent self = Some a \<Longrightarrow> \<not> agent_bool env a \<Longrightarrow>
   run_async env self prompt kwargs w = ((Inl (ValueError not_loaded_msg), self), w)"
  by (simp add: run_async_def)

lemma type_or_unset:
  "type_or (case x of None \<Rightarrow> None | Some t \<Rightarrow> if truthy t then Some t else None) nm g =
   type_or x nm g"
  by (simp add: type_or_def split: option.split)

lemma dict_or_unset:
  "dict_or (case x of None \<Rightarrow> None | Some m \<Rightarrow> if m = [] then None else Some m) [] = dict_or x []"
  by (simp add: dict_or_def split: option.split)

lemma str_or_unset:
  "str_or (case x of None \<Rightarrow> None | Some d \<Rightarrow> if d = [] then None else Some d) dflt = str_or x dflt"
  by (simp add: str_or_def split: option.split)

lemma get_model_kwargs_unset: "get_model_kwargs (spec_unset_falsy c) = get_model_kwargs c"
  by (simp add: get_model_kwargs_def spec_unset_falsy_def dict_or_unset)

lemma get_model_unset: "get_model env (spec_unset_falsy c) w = get_model env c w"
proof -
  have "model_type (spec_unset_falsy c) =
          (case model_type c of None \<Rightarrow> None | Some t \<Rightarrow> if truthy t then Some t else None)"
    by (simp add: spec_unset_falsy_def)
  then show ?thesis
    by (simp add: get_model_def get_model_kwargs_unset type_or_unset split: sum.split)
qed

lemma get_agent_kwargs_unset:
  "get_agent_kwargs (spec_unset_falsy c) ts llm = get_agent_kwargs c ts llm"
  by (simp add: get_agent_kwargs_def spec_unset_falsy_def dict_or_unset str_or_unset)


text \<open>
  C3. An adapter whose \<^verbatim>\<open>_agent\<close> is \<^verbatim>\<open>None\<close> (no load has stored an agent) fails every
  run, whatever the prompt and the options, with \<^verbatim>\<open>ValueError\<close> carrying exactly the
  message "Agent not loaded. Call load_agent() first."; the backend is not called and the
  adapter is left as it was.
\<close>

theorem run_not_loaded:
  "self_agent self = None \<Longrightarrow>
   run_async env self prompt kwargs w =
     ((Inl (ValueError ''Agent not loaded. Call load_agent() first.''), self), w)"
  by (simp add: run_async_def not_loaded_msg_def)

theorem run_not_loaded_witness:
  "run_async echo_env echo_unloaded [] [] [] =
     ((Inl (ValueError ''Agent not loaded. Call load_agent() first.''), echo_unloaded), []) \<and>
   run_async echo_env echo_unloaded ''hello'' [(''max_steps'', ''3'')] [''load_tools''] =
     ((Inl (ValueError ''Agent not loaded. Call load_agent() first.''), echo_unloaded), [''load_tools''])"
proof -
  have n: "self_agent echo_unloaded = None"
    by (simp add: echo_unloaded_def)
  show ?thesis
    using run_not_loaded [OF n, of echo_env "[]" "[]" "[]"]
      run_not_loaded [OF n, of echo_env "''hello''" "[(''max_steps'', ''3'')]" "[''load_tools'']"]
    by simp
qed

text \<open>
  C1. On a loaded adapter (one that holds an agent which the test of line 71 accepts,
  so that the backend is called), when the backend returns a result whose block list is
  not empty and whose first block has a \<^verbatim>\<open>text\<close>, the run returns exactly that text (the
  other blocks do not matter), and leaves the adapter as it was. For the blocks
  \<^verbatim>\<open>[{text: "hello"}]\<close> the run returns "hello".
\<close>

theorem run_returns_first_text:
  "self_agent self = Some a \<Longrightarrow>
   agent_bool env a \<Longrightarrow>
   agent_run env a prompt kwargs w = (Inr result, w1) \<Longrightarrow>
   blocks (response result) = b # bs \<Longrightarrow>
   block_text b = Some t \<Longrightarrow>
   run_async env self prompt kwargs w = ((Inr t, self), w1)"
  by (simp add: run_async_def)

theorem run_returns_first_text_witness:
  "blocks (response (echo_output ''hello'')) = [\<lparr>block_type = ''text'', block_text = Some ''hello''\<rparr>] \<and>
   run_async echo_env echo_loaded ''hello'' [] [] = ((Inr ''hello'', echo_loaded), [''run''])"
proof -
  have a: "self_agent echo_loaded = Some echo_agent"
    by (simp add: echo_loaded_def)
  have y: "agent_bool echo_env echo_agent"
    by (simp add: echo_env_def)
  have r: "agent_run echo_env echo_agent ''hello'' [] [] = (Inr (echo_output ''hello''), [''run''])"
    by (simp add: echo_env_def)
  have b: "blocks (response (echo_output ''hello'')) =
             \<lparr>block_type = ''text'', block_text = Some ''hello''\<rparr> # []"
    by (simp add: echo_output_def echo_blocks_def)
  have t: "block_text \<lparr>block_type = ''text'', block_text = Some ''hello''\<rparr> = Some ''hello''"
    by simp
  show ?thesis
    using run_returns_first_text [OF a y r b t] b by simp
qed

text \<open>
  C2. On a loaded adapter (one that holds an agent which the test of line 71 accepts,
  so that the backend is called), when the backend returns a result whose block list is
  empty, or whose first block has no \<^verbatim>\<open>text\<close>, the run raises \<^verbatim>\<open>ValueError\<close> (the spec's
  InvalidResponseShape) whose message is "Agent did not return a valid response: "
  followed by the rendering of the result's response, the object that holds the blocks.
  No string is returned and the adapter is left as it was.
\<close>

theorem run_invalid_response:
  "self_agent self = Some a \<Longrightarrow>
   agent_bool env a \<Longrightarrow>
   agent_run env a prompt kwargs w = (Inr result, w1) \<Longrightarrow>
   blocks (response result) = [] \<or> block_text (hd (blocks (response result))) = None \<Longrightarrow>
   run_async env self prompt kwargs w =
     ((Inl (ValueError (''Agent did not return a valid response: '' @
                        str_response env (response result))), self), w1)"
  by (cases "blocks (response result)") (auto simp: run_async_def invalid_response_msg_def)

theorem run_invalid_response_witness:
  "run_async echo_env echo_loaded [] [] [] =
     ((Inl (ValueError ''Agent did not return a valid response: assistant: ''), echo_loaded), [''run'']) \<and>
   run_async echo_env echo_loaded ''image'' [] [] =
     ((Inl (ValueError ''Agent did not return a valid response: assistant: ''), echo_loaded), [''run''])"
proof -
  have a: "self_agent echo_loaded = Some echo_agent"
    by (simp add: echo_loaded_def)
  have y: "agent_bool echo_env echo_agent"
    by (simp add: echo_env_def)
  have r1: "agent_run echo_env echo_agent [] [] [] = (Inr (echo_output []), [''run''])"
    by (simp add: echo_env_def)
  have r2: "agent_run echo_env echo_agent ''image'' [] [] = (Inr (echo_output ''image''), [''run''])"
    by (simp add: echo_env_def)
  have b1: "blocks (response (echo_output [])) = [] \<or>
            block_text (hd (blocks (response (echo_output [])))) = None"
    by (simp add: echo_output_def echo_blocks_def)
  have b2: "blocks (response (echo_output ''image'')) = [] \<or>
            block_text (hd (blocks (response (echo_output ''image'')))) = None"
    by (simp add: echo_output_def echo_blocks_def)
  have s1: "str_response echo_env (response (echo_output [])) = ''assistant: ''"
    by (simp add: echo_env_def echo_output_def echo_blocks_def)
  have s2: "str_response echo_env (response (echo_output ''image'')) = ''assistant: ''"
    by (simp add: echo_env_def echo_output_def echo_blocks_def)
  show ?thesis
    using run_invalid_response [OF a y r1 b1] run_invalid_response [OF a y r2 b2] s1 s2 by simp
qed

text \<open>
  C4. When the backend is not available, loading raises \<^verbatim>\<open>ImportError\<close> (the spec's
  IntegrationMissing) with the install instruction as its message, whatever the
  configuration. The check comes first: the world is the one the call started in, so no
  collaborator (tool loader, model class, agent class) has been called, and the adapter
  is left as it was.
\<close>

theorem load_unavailable:
  "\<not> llama_index_available env \<Longrightarrow>
   load_agent env self w = ((Inl (ImportError install_msg), self), w) \<and>
   install_msg =
     ''You need to `pip install '' @ [CHR 0x27] @ ''any-agent[llama_index]'' @ [CHR 0x27] @
     ''` to use this agent''"
  by (simp add: load_agent_def install_msg_def)

theorem load_unavailable_witness:
  "load_agent (echo_env\<lparr>llama_index_available := False\<rparr>) echo_unloaded [] =
     ((Inl (ImportError install_msg), echo_unloaded), []) \<and>
   load_agent (echo_env\<lparr>llama_index_available := False\<rparr>)
       (echo_loaded\<lparr>self_config := echo_config\<lparr>tools := [''bad'']\<rparr>\<rparr>) [''run''] =
     ((Inl (ImportError install_msg),
       echo_loaded\<lparr>self_config := echo_config\<lparr>tools := [''bad'']\<rparr>\<rparr>), [''run''])"
proof -
  have u: "\<not> llama_index_available (echo_env\<lparr>llama_index_available := False\<rparr>)"
    by simp
  show ?thesis
    using load_unavailable [OF u, of echo_unloaded "[]"]
      load_unavailable [OF u, of "echo_loaded\<lparr>self_config := echo_config\<lparr>tools := [''bad'']\<rparr>\<rparr>" "[''run'']"]
    by simp
qed

text \<open>
  C8. When the backend is available and the tool loader raises, loading raises the very
  same exception: it is not wrapped, not suppressed and not replaced by an error of the
  adapter. The adapter is left as it was, and the world is the one the loader left.
\<close>

theorem load_tools_error_propagates:
  "llama_index_available env \<Longrightarrow>
   load_tools env (tools (self_config self)) w = (Inl e, w1) \<Longrightarrow>
   load_agent env self w = ((Inl e, self), w1)"
  by (simp add: load_agent_def)

theorem load_tools_error_propagates_witness:
  "load_tools echo_env [''bad''] [] = (Inl (Raised ''unknown tool''), [''load_tools'']) \<and>
   load_agent echo_env (echo_unloaded\<lparr>self_config := echo_config\<lparr>tools := [''bad'']\<rparr>\<rparr>) [] =
     ((Inl (Raised ''unknown tool''), echo_unloaded\<lparr>self_config := echo_config\<lparr>tools := [''bad'']\<rparr>\<rparr>),
      [''load_tools''])"
proof -
  have v: "llama_index_available echo_env"
    by (simp add: echo_env_def)
  have l: "load_tools echo_env
             (tools (self_config (echo_unloaded\<lparr>self_config := echo_config\<lparr>tools := [''bad'']\<rparr>\<rparr>))) [] =
           (Inl (Raised ''unknown tool''), [''load_tools''])"
    by (simp add: echo_env_def)
  show ?thesis
    using load_tools_error_propagates [OF v l] l by simp
qed

text \<open>
  C9. A run, whether it returns or raises, leaves the adapter object as it was: the
  stored agent, the stored tools and the configuration are the ones from before the call.
\<close>

theorem run_preserves_adapter:
  "snd (fst (run_async env self prompt kwargs w)) = self"
  by (simp add: run_async_def split: option.split prod.split sum.split list.split)

text \<open>
  C5. The keyword arguments the model class is called with are the configuration's model
  identifier, API key, API base and model arguments (the empty dict when there are none),
  and nothing else of the configuration. Two configurations that agree on these four
  fields give the same keyword arguments, whatever their other fields; the model of the
  first is its model class called with the second's arguments, and when the two also
  name the same model class, building the model is the same call.
\<close>

theorem get_model_field_mapping:
  fixes env :: "('w, 'e, 'v, 'ts, 'mt, 'at, 'tl, 'aux, 'llm, 'ag) env"
  assumes "model_id c1 = model_id c2" and "api_key c1 = api_key c2"
    and "api_base c1 = api_base c2" and "model_args c1 = model_args c2"
  shows "get_model_kwargs c1 = get_model_kwargs c2 \<and>
         get_model_kwargs c1 =
           \<lparr>kw_model = model_id c1, kw_api_key = api_key c1, kw_api_base = api_base c1,
            kw_additional_kwargs = (case model_args c1 of None \<Rightarrow> [] | Some m \<Rightarrow> m)\<rparr> \<and>
         (\<forall>mt. (case model_type c1 of
                  None \<Rightarrow> DEFAULT_MODEL_TYPE env = Some mt
                | Some c \<Rightarrow> if truthy c then mt = c else DEFAULT_MODEL_TYPE env = Some mt) \<longrightarrow>
               get_model env c1 w = call_model_type env mt (get_model_kwargs c2) w) \<and>
         (model_type c1 = model_type c2 \<longrightarrow> get_model env c1 w = get_model env c2 w)"
proof -
  have k: "get_model_kwargs c1 = get_model_kwargs c2"
    using assms by (simp add: get_model_kwargs_def)
  have f: "get_model_kwargs c1 =
             \<lparr>kw_model = model_id c1, kw_api_key = api_key c1, kw_api_base = api_base c1,
              kw_additional_kwargs = (case model_args c1 of None \<Rightarrow> [] | Some m \<Rightarrow> m)\<rparr>"
    by (simp add: get_model_kwargs_def dict_or_empty)
  have m: "get_model env c1 w = call_model_type env mt (get_model_kwargs c2) w"
    if "case model_type c1 of
          None \<Rightarrow> DEFAULT_MODEL_TYPE env = Some mt
        | Some c \<Rightarrow> if truthy c then mt = c else DEFAULT_MODEL_TYPE env = Some mt" for mt
  proof -
    from that have
      "type_or (model_type c1) ''DEFAULT_MODEL_TYPE'' (DEFAULT_MODEL_TYPE env) =
         (Inr mt :: 'e exn + 'mt callable)"
      by (simp only: type_or_Inr)
    then show ?thesis
      by (simp add: get_model_def k)
  qed
  have t: "get_model env c1 w = get_model env c2 w" if "model_type c1 = model_type c2"
    using that by (simp add: get_model_def k split: sum.split)
  from k f m t show ?thesis
    by blast
qed

theorem get_model_field_mapping_witness:
  "tools echo_config \<noteq> tools echo_other_config \<and>
   get_model_kwargs echo_other_config =
     \<lparr>kw_model = ''gpt-4o'', kw_api_key = Some ''k'', kw_api_base = None,
      kw_additional_kwargs = []\<rparr> \<and>
   get_model echo_env echo_config [] = (Inr echo_llm, [''model'']) \<and>
   get_model echo_env echo_other_config [] = (Inr echo_llm, [''model''])"
proof -
  have a: "model_id echo_config = model_id echo_other_config"
    "api_key echo_config = api_key echo_other_config"
    "api_base echo_config = api_base echo_other_config"
    "model_args echo_config = model_args echo_other_config"
    by (simp_all add: echo_other_config_def)
  have g: "get_model echo_env echo_config [] = (Inr echo_llm, [''model''])"
    by (simp add: get_model_def get_model_kwargs_def type_or_def lookup_global_def dict_or_def
        echo_env_def echo_config_def echo_llm_def)
  have t: "model_type echo_config = model_type echo_other_config"
    "tools echo_config \<noteq> tools echo_other_config"
    by (simp_all add: echo_other_config_def echo_config_def)
  have kc: "get_model_kwargs echo_config =
              \<lparr>kw_model = ''gpt-4o'', kw_api_key = Some ''k'', kw_api_base = None,
               kw_additional_kwargs = []\<rparr>"
    by (simp add: get_model_kwargs_def dict_or_def echo_config_def)
  from get_model_field_mapping [OF a, where env = echo_env and w = "[]"]
  have k: "get_model_kwargs echo_config = get_model_kwargs echo_other_config"
    and e: "model_type echo_config = model_type echo_other_config \<longrightarrow>
            get_model echo_env echo_config [] = get_model echo_env echo_other_config []"
    by blast+
  from k kc e t g show ?thesis
    by simp
qed

text \<open>
  C6, as the spec states it, fails: with the description set to the empty string the
  load succeeds and the agent class is called with "The main agent", not with the
  configured description.
\<close>

theorem load_empty_description_counterexample:
  "description (self_config echo_blank) = Some [] \<and>
   fst (fst (load_agent echo_env echo_blank [])) = Inr () \<and>
   map_option (\<lambda>a. kw_description (snd a)) (self_agent (snd (fst (load_agent echo_env echo_blank [])))) =
     Some ''The main agent'' \<and>
   map_option (\<lambda>a. kw_description (snd a)) (self_agent (snd (fst (load_agent echo_env echo_blank [])))) \<noteq>
     Some (spec_description (self_config echo_blank))"
  by (simp add: load_agent_def get_model_def get_model_kwargs_def get_agent_kwargs_def
      type_or_def lookup_global_def dict_or_def str_or_def repeated_keyword_def
      echo_env_def echo_unloaded_def echo_blank_def echo_config_def spec_description_def)

text \<open>
  C6, amended. A load that succeeds has resolved the configuration's tools with the tool
  loader, has built the model with the model factory, and has called the agent class
  (the configured one when there is one and it is truthy, else the default) with
  the configuration's name, the resolved tools, the description ("The main agent" when
  it is unset or empty), the model, the instructions as system prompt, and the agent
  arguments unpacked (none when unset); the object the call returned is stored in
  \<^verbatim>\<open>_agent\<close>, the resolved tools in \<^verbatim>\<open>_tools\<close>, and nothing else of the adapter changes.
\<close>

theorem load_constructs_agent:
  fixes env :: "('w, 'e, 'v, 'ts, 'mt, 'at, 'tl, 'aux, 'llm, 'ag) env"
  assumes "load_agent env self w = ((Inr u, self'), w')"
  shows "\<exists>imported_tools aux w1 at llm w2 a.
           load_tools env (tools (self_config self)) w = (Inr (imported_tools, aux), w1) \<and>
           (case agent_type (self_config self) of
              None \<Rightarrow> DEFAULT_AGENT_TYPE env = Some at
            | Some c \<Rightarrow> if truthy c then at = c else DEFAULT_AGENT_TYPE env = Some at) \<and>
           get_model env (self_config self) w1 = (Inr llm, w2) \<and>
           call_agent_type env at
             \<lparr>kw_name = name (self_config self),
              kw_tools = imported_tools,
              kw_description =
                (case description (self_config self) of
                   None \<Rightarrow> ''The main agent''
                 | Some d \<Rightarrow> if d = [] then ''The main agent'' else d),
              kw_llm = llm,
              kw_system_prompt = instructions (self_config self),
              kw_unpacked = (case agent_args (self_config self) of None \<Rightarrow> [] | Some m \<Rightarrow> m)\<rparr>
             w2 = (Inr a, w') \<and>
           self' = self\<lparr>self_tools := imported_tools, self_agent := Some a\<rparr>"
proof -
  have k: "get_agent_kwargs (self_config self) imported_tools llm =
             \<lparr>kw_name = name (self_config self),
              kw_tools = imported_tools,
              kw_description =
                (case description (self_config self) of
                   None \<Rightarrow> ''The main agent''
                 | Some d \<Rightarrow> if d = [] then ''The main agent'' else d),
              kw_llm = llm,
              kw_system_prompt = instructions (self_config self),
              kw_unpacked = (case agent_args (self_config self) of None \<Rightarrow> [] | Some m \<Rightarrow> m)\<rparr>"
    for imported_tools :: "'tl list" and llm :: 'llm
    by (simp add: get_agent_kwargs_def dict_or_empty str_or_def)
  from load_agent_Inr [OF assms] show ?thesis
    unfolding k by blast
qed

theorem load_constructs_agent_witness:
  "load_agent echo_env echo_unloaded [] = ((Inr (), echo_loaded), [''load_tools'', ''model'', ''agent'']) \<and>
   self_agent echo_loaded =
     Some (Callable True ''FunctionAgent'',
           \<lparr>kw_name = ''any_agent'', kw_tools = [''search''], kw_description = ''The main agent'',
            kw_llm = echo_llm, kw_system_prompt = Some ''Be brief'', kw_unpacked = []\<rparr>) \<and>
   (\<exists>imported_tools aux w1 at llm w2 a.
      load_tools echo_env (tools (self_config echo_unloaded)) [] = (Inr (imported_tools, aux), w1) \<and>
      (case agent_type (self_config echo_unloaded) of
         None \<Rightarrow> DEFAULT_AGENT_TYPE echo_env = Some at
       | Some c \<Rightarrow> if truthy c then at = c else DEFAULT_AGENT_TYPE echo_env = Some at) \<and>
      get_model echo_env (self_config echo_unloaded) w1 = (Inr llm, w2) \<and>
      call_agent_type echo_env at
        \<lparr>kw_name = name (self_config echo_unloaded),
         kw_tools = imported_tools,
         kw_description =
           (case description (self_config echo_unloaded) of
              None \<Rightarrow> ''The main agent''
            | Some d \<Rightarrow> if d = [] then ''The main agent'' else d),
         kw_llm = llm,
         kw_system_prompt = instructions (self_config echo_unloaded),
         kw_unpacked = (case agent_args (self_config echo_unloaded) of None \<Rightarrow> [] | Some m \<Rightarrow> m)\<rparr>
        w2 = (Inr a, [''load_tools'', ''model'', ''agent'']) \<and>
      echo_loaded = echo_unloaded\<lparr>self_tools := imported_tools, self_agent := Some a\<rparr>)"
proof -
  have a: "self_agent echo_loaded =
     Some (Callable True ''FunctionAgent'',
           \<lparr>kw_name = ''any_agent'', kw_tools = [''search''], kw_description = ''The main agent'',
            kw_llm = echo_llm, kw_system_prompt = Some ''Be brief'', kw_unpacked = []\<rparr>)"
    by (simp add: echo_loaded_def echo_agent_def)
  from echo_load a load_constructs_agent [OF echo_load] show ?thesis
    by (intro conjI)
qed




text \<open>
  C10. The defaults are chosen by truth value. Replacing, in a configuration, every
  falsy value of \<^verbatim>\<open>description\<close>, \<^verbatim>\<open>model_args\<close>, \<^verbatim>\<open>agent_args\<close>, \<^verbatim>\<open>model_type\<close> and
  \<^verbatim>\<open>agent_type\<close> by \<^verbatim>\<open>None\<close> changes neither the model that is built, nor the keyword
  arguments of the agent class, nor the load: same outcome, same world, same stored tools
  and agent. With the empty string as description the agent class is called with
  "The main agent", and a load that succeeds stores an agent built with it.
\<close>

theorem defaulting_by_falsiness:
  fixes env :: "('w, 'e, 'v, 'ts, 'mt, 'at, 'tl, 'aux, 'llm, 'ag) env"
  shows
  "get_model env (spec_unset_falsy c) w = get_model env c w \<and>
   get_agent_kwargs (spec_unset_falsy c) ts llm = get_agent_kwargs c ts llm \<and>
   load_agent env (self\<lparr>self_config := spec_unset_falsy c\<rparr>) w =
     (case load_agent env (self\<lparr>self_config := c\<rparr>) w of
        ((r, s), w') \<Rightarrow> ((r, s\<lparr>self_config := spec_unset_falsy c\<rparr>), w')) \<and>
   kw_description (get_agent_kwargs (c\<lparr>description := Some []\<rparr>) ts llm) = ''The main agent'' \<and>
   (description (self_config self) = Some [] \<longrightarrow>
    load_agent env self w = ((Inr u, self'), w') \<longrightarrow>
      (\<exists>at kw w2 b. call_agent_type env at kw w2 = (Inr b, w') \<and>
         kw_description kw = ''The main agent'' \<and> self_agent self' = Some b))"
proof -
  have t: "type_or (agent_type (spec_unset_falsy c)) nm g = (type_or (agent_type c) nm g :: 'e exn + 'at callable)"
    for nm g
    by (simp add: spec_unset_falsy_def type_or_unset)
  have d: "dict_or (agent_args (spec_unset_falsy c)) [] = dict_or (agent_args c) []"
    by (simp add: spec_unset_falsy_def dict_or_unset)
  have x: "tools (spec_unset_falsy c) = tools c"
    by (simp add: spec_unset_falsy_def)
  have l: "load_agent env (self\<lparr>self_config := spec_unset_falsy c\<rparr>) w =
     (case load_agent env (self\<lparr>self_config := c\<rparr>) w of
        ((r, s), w') \<Rightarrow> ((r, s\<lparr>self_config := spec_unset_falsy c\<rparr>), w'))"
    by (simp add: load_agent_def Let_def t d x get_model_unset get_agent_kwargs_unset
        split: prod.split sum.split option.split)
  have k: "kw_description (get_agent_kwargs (c\<lparr>description := Some []\<rparr>) ts llm) = ''The main agent''"
    by (simp add: get_agent_kwargs_def str_or_def)
  have b: "\<exists>at kw w2 b. call_agent_type env at kw w2 = (Inr b, w') \<and>
             kw_description kw = ''The main agent'' \<and> self_agent self' = Some b"
    if e: "description (self_config self) = Some []"
      and s: "load_agent env self w = ((Inr u, self'), w')"
  proof -
    from load_agent_Inr [OF s] obtain imported_tools at llm' w2 b where
      h: "call_agent_type env at (get_agent_kwargs (self_config self) imported_tools llm') w2 = (Inr b, w')"
        "self' = self\<lparr>self_tools := imported_tools, self_agent := Some b\<rparr>"
      by blast
    from e have "kw_description (get_agent_kwargs (self_config self) imported_tools llm') = ''The main agent''"
      by (simp add: get_agent_kwargs_def str_or_def)
    with h show ?thesis
      by auto
  qed
  from get_model_unset [of env c w] get_agent_kwargs_unset [of c ts llm] l k b show ?thesis
    by blast
qed

theorem defaulting_by_falsiness_witness:
  "spec_unset_falsy echo_falsy_config = echo_config \<and>
   echo_falsy_config \<noteq> echo_config \<and>
   load_agent echo_env (echo_unloaded\<lparr>self_config := echo_falsy_config\<rparr>) [] =
     ((Inr (), echo_loaded\<lparr>self_config := echo_falsy_config\<rparr>), [''load_tools'', ''model'', ''agent'']) \<and>
   (\<exists>at kw w2 b. call_agent_type echo_env at kw w2 = (Inr b, [''load_tools'', ''model'', ''agent'']) \<and>
      kw_description kw = ''The main agent'' \<and>
      self_agent (echo_loaded\<lparr>self_config := echo_falsy_config\<rparr>) = Some b)"
proof -
  have u: "spec_unset_falsy echo_falsy_config = echo_config"
    by (simp add: spec_unset_falsy_def echo_falsy_config_def echo_config_def)
  have n: "echo_falsy_config \<noteq> echo_config"
  proof
    assume "echo_falsy_config = echo_config"
    then have "description echo_falsy_config = description echo_config"
      by simp
    then show False
      by (simp add: echo_falsy_config_def echo_config_def)
  qed
  have l: "load_agent echo_env (echo_unloaded\<lparr>self_config := echo_falsy_config\<rparr>) [] =
     ((Inr (), echo_loaded\<lparr>self_config := echo_falsy_config\<rparr>), [''load_tools'', ''model'', ''agent''])"
    by (simp add: load_agent_def get_model_def get_model_kwargs_def get_agent_kwargs_def
        type_or_def lookup_global_def dict_or_def str_or_def repeated_keyword_def
        echo_env_def echo_unloaded_def echo_loaded_def echo_config_def echo_falsy_config_def
        echo_agent_def echo_llm_def)
  have e: "description (self_config (echo_unloaded\<lparr>self_config := echo_falsy_config\<rparr>)) = Some []"
    by (simp add: echo_falsy_config_def)
  from defaulting_by_falsiness [where env = echo_env and w = "[]"
      and self = "echo_unloaded\<lparr>self_config := echo_falsy_config\<rparr>" and u = "()"
      and self' = "echo_loaded\<lparr>self_config := echo_falsy_config\<rparr>"
      and w' = "[''load_tools'', ''model'', ''agent'']" and c = echo_falsy_config
      and ts = "[''search'']" and llm = echo_llm] e l
  have "\<exists>at kw w2 b. call_agent_type echo_env at kw w2 = (Inr b, [''load_tools'', ''model'', ''agent'']) \<and>
      kw_description kw = ''The main agent'' \<and>
      self_agent (echo_loaded\<lparr>self_config := echo_falsy_config\<rparr>) = Some b"
    by blast
  with u n l show ?thesis
    by blast
qed

end
